theory Spec2Isabelle
  imports Main "HOL-Library.Word"
begin

unbundle bit_operations_syntax

section \<open>Go library functions the proxy calls\<close>

text \<open>
  Go strings are byte sequences; they are modelled as \<^typ>\<open>string\<close> (a list of 8-bit
  characters). Go's \<open>int\<close> is modelled as \<^typ>\<open>int\<close>; the one place where its 64-bit
  range is observable (\<open>strconv.Atoi\<close> rejecting numbers out of range) is written out.
\<close>

abbreviation CR :: char where "CR \<equiv> CHR 0x0D"
abbreviation LF :: char where "LF \<equiv> CHR 0x0A"
abbreviation CRLF :: string where "CRLF \<equiv> [CR, LF]"

text \<open>
  The white space of \<open>strings.TrimSpace\<close> and \<open>strings.Fields\<close> on strings whose bytes
  are all below 0x80: tab, line feed, vertical tab, form feed, carriage return, space.
  (On a string with a byte from 0x80 on, Go decodes UTF-8 and consults the Unicode tables;
  the model leaves such bytes as non-space.)
\<close>

definition isSpace :: "char \<Rightarrow> bool" where
  "isSpace c \<longleftrightarrow> c = CHR 0x09 \<or> c = LF \<or> c = CHR 0x0B \<or> c = CHR 0x0C \<or> c = CR \<or> c = CHR '' ''"

definition TrimSpace :: "string \<Rightarrow> string" where
  "TrimSpace s = rev (dropWhile isSpace (rev (dropWhile isSpace s)))"

text \<open>\<open>strings.Fields\<close>: the maximal runs of non-space bytes, in order.\<close>

fun fields_from :: "string \<Rightarrow> string \<Rightarrow> string list" where
  "fields_from cur [] = (if cur = [] then [] else [cur])"
| "fields_from cur (c # cs) =
     (if isSpace c then (if cur = [] then fields_from [] cs else cur # fields_from [] cs)
      else fields_from (cur @ [c]) cs)"

definition Fields :: "string \<Rightarrow> string list" where
  "Fields s = fields_from [] s"

text \<open>
  \<open>strings.Split(s, sep)\<close> for a separator of one byte, which is every use in the source
  (\<open>"\n"\<close>, \<open>","\<close>, \<open>"-"\<close>): the result always has at least one element.
\<close>

fun split_from :: "char \<Rightarrow> string \<Rightarrow> string \<Rightarrow> string list" where
  "split_from sep cur [] = [cur]"
| "split_from sep cur (c # cs) =
     (if c = sep then cur # split_from sep [] cs else split_from sep (cur @ [c]) cs)"

definition Split :: "string \<Rightarrow> char \<Rightarrow> string list" where
  "Split s sep = split_from sep [] s"

text \<open>\<open>strings.Index(s, sub)\<close> for a one-byte \<open>sub\<close>: the first position, or -1.\<close>

fun Index :: "string \<Rightarrow> char \<Rightarrow> int" where
  "Index [] c = -1"
| "Index (x # xs) c =
     (if x = c then 0 else (let i = Index xs c in if i = -1 then -1 else i + 1))"

definition Contains :: "string \<Rightarrow> char \<Rightarrow> bool" where
  "Contains s c \<longleftrightarrow> Index s c \<noteq> -1"

definition HasPrefix :: "string \<Rightarrow> string \<Rightarrow> bool" where
  "HasPrefix s p \<longleftrightarrow> take (length p) s = p"

text \<open>The slice expression \<open>s[lo:hi]\<close> for \<open>0 \<le> lo \<le> hi \<le> len(s)\<close>.\<close>

definition slice :: "string \<Rightarrow> int \<Rightarrow> int \<Rightarrow> string" where
  "slice s lo hi = take (nat (hi - lo)) (drop (nat lo) s)"

text \<open>\<open>strings.ToUpper\<close> on bytes below 0x80 (other bytes are left as they are).\<close>

definition upperChar :: "char \<Rightarrow> char" where
  "upperChar c = (let n = (of_char c :: nat) in if 97 \<le> n \<and> n \<le> 122 then char_of (n - 32) else c)"

definition ToUpper :: "string \<Rightarrow> string" where
  "ToUpper s = map upperChar s"

text \<open>
  \<open>strconv.Atoi\<close>: an optional sign, then at least one decimal digit and nothing else;
  a value outside the 64-bit range of \<open>int\<close> is an error. \<open>None\<close> is the error.
\<close>

definition digitVal :: "char \<Rightarrow> nat option" where
  "digitVal c = (let n = (of_char c :: nat) in if 48 \<le> n \<and> n \<le> 57 then Some (n - 48) else None)"

fun parseDigits :: "nat \<Rightarrow> string \<Rightarrow> nat option" where
  "parseDigits acc [] = Some acc"
| "parseDigits acc (c # cs) =
     (case digitVal c of None \<Rightarrow> None | Some d \<Rightarrow> parseDigits (acc * 10 + d) cs)"

definition Atoi :: "string \<Rightarrow> int option" where
  "Atoi s =
     (case s of
        [] \<Rightarrow> None
      | c # cs \<Rightarrow>
          (let ds = (if c = CHR ''-'' \<or> c = CHR ''+'' then cs else s) in
           if ds = [] then None
           else case parseDigits 0 ds of
                  None \<Rightarrow> None
                | Some n \<Rightarrow>
                    (let v = (if c = CHR ''-'' then - int n else int n) in
                     if v < - (2 ^ 63) \<or> 2 ^ 63 - 1 < v then None else Some v)))"

definition isDigit :: "char \<Rightarrow> bool" where
  "isDigit c \<longleftrightarrow> 48 \<le> (of_char c :: nat) \<and> (of_char c :: nat) \<le> 57"

text \<open>\<open>fmt.Sprintf("%d", n)\<close>: the decimal digits, with a minus sign when negative.\<close>

definition digitChar :: "nat \<Rightarrow> char" where
  "digitChar d = char_of (48 + d)"

fun natToDec :: "nat \<Rightarrow> string" where
  "natToDec n = (if n < 10 then [digitChar n] else natToDec (n div 10) @ [digitChar (n mod 10)])"

declare natToDec.simps [simp del]

definition Itoa :: "int \<Rightarrow> string" where
  "Itoa n = (if n < 0 then CHR ''-'' # natToDec (nat (- n)) else natToDec (nat n))"

section \<open>Errors\<close>

text \<open>
  Every error return of the source is a constructor; a run-time panic of Go (an index out
  of range, a negative length given to \<open>make\<close>) is one too, so that it is a result of the
  model rather than an unspecified value.
\<close>

datatype error =
    PanicIndexOutOfRange int
  | PanicMakeSlice int
  | EOF
  | ErrUnexpectedEOF
  | ErrEmptyCommand
  | ErrArrayLength string
  | ErrBulkFormat
  | ErrBulkLength string
  | ErrNodeFormat
  | ErrSlotRange string
  | ErrSlotNumber string
  | ErrSlot string
  | ErrTooManyRedirects
  | ErrPoolFull
  | ErrDial string
  | ErrConnectBackend error
  | ErrSendBackend
  | ErrReadBackend
  | ErrAskConnect error
  | ErrAskSend
  | ErrAskRead
  | ErrAskReply string
  | ErrAskDispatch
  | ErrAskReadReply
  | ErrClientWrite

section \<open>Configuration\<close>

record Config =
  ProxyPort :: int
  RedisNodes :: "string list"
  AutoRedirect :: bool
  LogLevel :: string
  LogFile :: string

section \<open>cluster.go: the slot map\<close>

record SlotRange =
  Start :: int
  End :: int

record ClusterNode =
  ID :: string
  Address :: string
  IsMaster :: bool
  Slots :: "SlotRange list"
  Flags :: "string list"
  Master :: string
  Health :: bool

text \<open>
  \<open>slots\<close> is the array \<open>[16384]string\<close>: a function on indices. An indexed read
  goes through \<open>slots_get\<close> and an indexed write through the check in \<open>fillSlots\<close>,
  which panic outside \<open>0..16383\<close> as Go's bounds check does. \<open>nodes\<close> is the map from node id to node, as an association list
  (its order stands for the iteration order of the Go map, which Go leaves unspecified).
\<close>

record ClusterManager =
  nodes :: "(string \<times> ClusterNode) list"
  slots :: "nat \<Rightarrow> string"
  config :: Config

definition slots_get :: "(nat \<Rightarrow> string) \<Rightarrow> int \<Rightarrow> error + string" where
  "slots_get a i = (if 0 \<le> i \<and> i < 16384 then Inr (a (nat i)) else Inl (PanicIndexOutOfRange i))"

subsection \<open>crc16CCITT and calculateSlot\<close>

type_synonym uint16 = "16 word"

text \<open>The inner loop \<open>for i := 0; i < 8; i++\<close>, with the number of rounds left.\<close>

fun crc_bits :: "nat \<Rightarrow> uint16 \<Rightarrow> uint16" where
  "crc_bits 0 crc = crc"
| "crc_bits (Suc i) crc =
     crc_bits i (if crc AND 0x8000 \<noteq> 0 then push_bit 1 crc XOR 0x1021 else push_bit 1 crc)"

fun crc_loop :: "uint16 \<Rightarrow> string \<Rightarrow> uint16" where
  "crc_loop crc [] = crc"
| "crc_loop crc (b # data) = crc_loop (crc_bits 8 (crc XOR push_bit 8 (of_char b))) data"

definition crc16CCITT :: "string \<Rightarrow> uint16" where
  "crc16CCITT data = crc_loop 0x0000 data"

text \<open>The substring that \<open>calculateSlot\<close> hashes.\<close>

definition routingKey :: "string \<Rightarrow> string" where
  "routingKey key =
     (let start = Index key (CHR ''{'') in
      if start \<noteq> -1 then
        (let end = Index (drop (nat (start + 1)) key) (CHR ''}'') in
         if end \<noteq> -1 then slice key (start + 1) (start + 1 + end) else key)
      else key)"

definition calculateSlot :: "string \<Rightarrow> int" where
  "calculateSlot key = uint (crc16CCITT (routingKey key)) mod 16384"

subsection \<open>Lookups\<close>

definition GetNodeForSlot :: "ClusterManager \<Rightarrow> int \<Rightarrow> error + string" where
  "GetNodeForSlot cm slot =
     (if slot \<ge> 0 \<and> slot < 16384 then slots_get (slots cm) slot else Inr [])"

text \<open>
  \<open>GetNodeForKey\<close> reads \<open>cm.slots[slot]\<close> at \<open>slot = calculateSlot(key)\<close>, which
  lies in \<open>0..16383\<close> (lemma \<open>calculateSlot_range\<close> below), so the bounds check of
  this read cannot fail.
\<close>

definition GetNodeForKey :: "ClusterManager \<Rightarrow> string \<Rightarrow> string" where
  "GetNodeForKey cm key =
     (let nodeAddr = slots cm (nat (calculateSlot key)) in
      if nodeAddr = [] \<and> length (RedisNodes (config cm)) > 0
      then RedisNodes (config cm) ! 0
      else nodeAddr)"

fun firstHealthyMaster :: "(string \<times> ClusterNode) list \<Rightarrow> string option" where
  "firstHealthyMaster [] = None"
| "firstHealthyMaster ((k, node) # rest) =
     (if IsMaster node \<and> Health node then Some (Address node) else firstHealthyMaster rest)"

definition GetRandomNode :: "ClusterManager \<Rightarrow> string" where
  "GetRandomNode cm =
     (case firstHealthyMaster (nodes cm) of
        Some a \<Rightarrow> a
      | None \<Rightarrow> (if length (RedisNodes (config cm)) > 0 then RedisNodes (config cm) ! 0 else []))"

subsection \<open>Parsing the topology\<close>

definition parseSlotRange :: "string \<Rightarrow> error + SlotRange" where
  "parseSlotRange slotStr =
     (if Contains slotStr (CHR ''-'') then
        (let parts = Split slotStr (CHR ''-'') in
         if length parts \<noteq> 2 then Inl (ErrSlotRange slotStr)
         else case (Atoi (parts ! 0), Atoi (parts ! 1)) of
                (Some start, Some end) \<Rightarrow> Inr \<lparr>Start = start, End = end\<rparr>
              | _ \<Rightarrow> Inl (ErrSlotNumber slotStr))
      else case Atoi slotStr of
             None \<Rightarrow> Inl (ErrSlot slotStr)
           | Some slot \<Rightarrow> Inr \<lparr>Start = slot, End = slot\<rparr>)"

text \<open>The loop over \<open>parts[8:]\<close>: a field that does not parse is skipped.\<close>

fun slotRangesOf :: "string list \<Rightarrow> SlotRange list" where
  "slotRangesOf [] = []"
| "slotRangesOf (p # ps) =
     (case parseSlotRange p of Inl e \<Rightarrow> slotRangesOf ps | Inr r \<Rightarrow> r # slotRangesOf ps)"

text \<open>The field \<open>LastPing\<close> (a wall-clock time) is left out of the record.\<close>

definition parseNodeLine :: "string \<Rightarrow> error + ClusterNode" where
  "parseNodeLine line =
     (let parts = Fields line in
      if length parts < 8 then Inl ErrNodeFormat
      else
        (let atIndex = Index (parts ! 1) (CHR ''@'');
             address = (if atIndex \<noteq> -1 then slice (parts ! 1) 0 atIndex else parts ! 1);
             flags = Split (parts ! 2) (CHR '','');
             isMaster = (''master'' \<in> set flags);
             ranges = (if isMaster \<and> length parts > 8 then slotRangesOf (drop 8 parts) else [])
         in Inr \<lparr>ID = parts ! 0, Address = address, IsMaster = isMaster, Slots = ranges,
                 Flags = flags, Master = parts ! 3, Health = True\<rparr>))"

text \<open>
  \<open>for slot := slotRange.Start; slot <= slotRange.End; slot++ { cm.slots[slot] = node.Address }\<close>:
  the write panics as soon as \<open>slot\<close> leaves the array.
\<close>

function fillSlots :: "(nat \<Rightarrow> string) \<Rightarrow> string \<Rightarrow> int \<Rightarrow> int \<Rightarrow> error + (nat \<Rightarrow> string)" where
  "fillSlots a addr slot end =
     (if slot \<le> end then
        (if 0 \<le> slot \<and> slot < 16384
         then fillSlots (a(nat slot := addr)) addr (slot + 1) end
         else Inl (PanicIndexOutOfRange slot))
      else Inr a)"
  by pat_completeness auto
termination
  by (relation "measure (\<lambda>(a, addr, slot, end). nat (16384 - slot))") auto

declare fillSlots.simps [simp del]

fun fillRanges :: "(nat \<Rightarrow> string) \<Rightarrow> string \<Rightarrow> SlotRange list \<Rightarrow> error + (nat \<Rightarrow> string)" where
  "fillRanges a addr [] = Inr a"
| "fillRanges a addr (r # rs) =
     (case fillSlots a addr (Start r) (End r) of
        Inl e \<Rightarrow> Inl e
      | Inr a' \<Rightarrow> fillRanges a' addr rs)"

fun nodes_put :: "(string \<times> ClusterNode) list \<Rightarrow> string \<Rightarrow> ClusterNode \<Rightarrow> (string \<times> ClusterNode) list" where
  "nodes_put [] k v = [(k, v)]"
| "nodes_put ((k', v') # m) k v = (if k' = k then (k, v) # m else (k', v') # nodes_put m k v)"

fun parseLines :: "ClusterManager \<Rightarrow> string list \<Rightarrow> error + ClusterManager" where
  "parseLines cm [] = Inr cm"
| "parseLines cm (line # lines) =
     (if TrimSpace line = [] then parseLines cm lines
      else case parseNodeLine line of
             Inl e \<Rightarrow> parseLines cm lines
           | Inr node \<Rightarrow>
               (let cm1 = cm\<lparr>nodes := nodes_put (nodes cm) (ID node) node\<rparr> in
                if IsMaster node then
                  (case fillRanges (slots cm1) (Address node) (Slots node) of
                     Inl e \<Rightarrow> Inl e
                   | Inr a \<Rightarrow> parseLines (cm1\<lparr>slots := a\<rparr>) lines)
                else parseLines cm1 lines))"

text \<open>
  \<open>parseClusterNodes\<close> returns no error of its own; \<open>Inl\<close> is a panic, which ends the
  process (nothing in the source recovers from it).
\<close>

definition parseClusterNodes :: "ClusterManager \<Rightarrow> string \<Rightarrow> error + ClusterManager" where
  "parseClusterNodes cm response =
     parseLines (cm\<lparr>nodes := [], slots := (\<lambda>_. [])\<rparr>) (Split (TrimSpace response) LF)"

section \<open>protocol.go: the wire protocol\<close>

text \<open>
  A \<open>bufio.Reader\<close> is the list of bytes it has yet to deliver; the end of the list is the
  end of the stream. Each read returns its result and the reader after it.
\<close>

type_synonym reader = string

text \<open>\<open>reader.ReadString('\n')\<close>: up to and including the first line feed.\<close>

definition ReadString :: "reader \<Rightarrow> (error + string) \<times> reader" where
  "ReadString r =
     (case dropWhile (\<lambda>c. c \<noteq> LF) r of
        [] \<Rightarrow> (Inl EOF, [])
      | _ # rest \<Rightarrow> (Inr (takeWhile (\<lambda>c. c \<noteq> LF) r @ [LF]), rest))"

text \<open>\<open>io.ReadFull(reader, data)\<close> with \<open>len(data) = n\<close>.\<close>

definition ReadFull :: "nat \<Rightarrow> reader \<Rightarrow> (error + string) \<times> reader" where
  "ReadFull n r =
     (if n \<le> length r then (Inr (take n r), drop n r)
      else (Inl (if r = [] then EOF else ErrUnexpectedEOF), []))"

definition parseBulkString :: "reader \<Rightarrow> (error + string) \<times> reader" where
  "parseBulkString r =
     (case ReadString r of
        (Inl e, r1) \<Rightarrow> (Inl e, r1)
      | (Inr line0, r1) \<Rightarrow>
          (let line = TrimSpace line0 in
           if length line = 0 \<or> line ! 0 \<noteq> CHR ''$'' then (Inl ErrBulkFormat, r1)
           else
             (let lengthStr = drop 1 line in
              case Atoi lengthStr of
                None \<Rightarrow> (Inl (ErrBulkLength lengthStr), r1)
              | Some len \<Rightarrow>
                  if len = -1 then (Inr [], r1)
                  else if len = 0 then (Inr [], snd (ReadString r1))
                  else if len < 0 then (Inl (PanicMakeSlice len), r1)
                  else (case ReadFull (nat len) r1 of
                          (Inl e, r2) \<Rightarrow> (Inl e, r2)
                        | (Inr data, r2) \<Rightarrow> (Inr data, snd (ReadString r2))))))"

text \<open>The loop \<open>for i := 0; i < count; i++\<close> of \<open>parseArrayCommand\<close>.\<close>

fun parseBulkStrings :: "nat \<Rightarrow> reader \<Rightarrow> (error + string list) \<times> reader" where
  "parseBulkStrings 0 r = (Inr [], r)"
| "parseBulkStrings (Suc n) r =
     (case parseBulkString r of
        (Inl e, r1) \<Rightarrow> (Inl e, r1)
      | (Inr arg, r1) \<Rightarrow>
          (case parseBulkStrings n r1 of
             (Inl e, r2) \<Rightarrow> (Inl e, r2)
           | (Inr args, r2) \<Rightarrow> (Inr (arg # args), r2)))"

definition parseArrayCommand :: "reader \<Rightarrow> string \<Rightarrow> (error + string list) \<times> reader" where
  "parseArrayCommand r firstLine =
     (let countStr = drop 1 firstLine in
      case Atoi countStr of
        None \<Rightarrow> (Inl (ErrArrayLength countStr), r)
      | Some count \<Rightarrow>
          if count \<le> 0 then (Inr [], r) else parseBulkStrings (nat count) r)"

definition ParseCommand :: "reader \<Rightarrow> (error + string list) \<times> reader" where
  "ParseCommand r =
     (case ReadString r of
        (Inl e, r1) \<Rightarrow> (Inl e, r1)
      | (Inr line0, r1) \<Rightarrow>
          (let line = TrimSpace line0 in
           if length line = 0 then (Inl ErrEmptyCommand, r1)
           else if line ! 0 = CHR ''*'' then parseArrayCommand r1 line
           else (Inr (Fields line), r1)))"

definition FormatError :: "string \<Rightarrow> string" where
  "FormatError message = ''-ERR '' @ message @ CRLF"

definition IsMovedError :: "string \<Rightarrow> bool \<times> string \<times> string" where
  "IsMovedError response0 =
     (let response = TrimSpace response0 in
      if HasPrefix response ''-MOVED '' then
        (let parts = Fields response in
         if length parts \<ge> 3 then (True, parts ! 1, parts ! 2) else (False, [], []))
      else (False, [], []))"

definition IsAskError :: "string \<Rightarrow> bool \<times> string \<times> string" where
  "IsAskError response0 =
     (let response = TrimSpace response0 in
      if HasPrefix response ''-ASK '' then
        (let parts = Fields response in
         if length parts \<ge> 3 then (True, parts ! 1, parts ! 2) else (False, [], []))
      else (False, [], []))"

text \<open>
  The bytes \<open>sendCommandToBackend\<close> builds before writing them: \<open>*n\r\n\<close>, then each
  argument as \<open>$len\r\n<bytes>\r\n\<close>.
\<close>

definition formatArg :: "string \<Rightarrow> string" where
  "formatArg arg = CHR ''$'' # Itoa (int (length arg)) @ CRLF @ arg @ CRLF"

definition formatCommand :: "string list \<Rightarrow> string" where
  "formatCommand command =
     CHR ''*'' # Itoa (int (length command)) @ CRLF @ concat (map formatArg command)"

section \<open>The network\<close>

text \<open>
  A backend socket is named by the order in which it was dialled. The outcome of every
  operation on the network is given by an environment: the \<open>t\<close>-th operation fails when
  the environment says \<open>None\<close> at \<open>t\<close> and succeeds otherwise, a read delivering the
  bytes given there. The operations performed are recorded in order.
\<close>

type_synonym conn = nat

type_synonym env = "nat \<Rightarrow> string option"

datatype event =
    EvDial string bool
  | EvWrite conn string bool
  | EvRead conn "string option"
  | EvSendCommand conn string bool
  | EvReadReply conn "string option"
  | EvClose conn
  | EvClientWrite string bool

record NodePool =
  address :: string
  connections :: "conn list"
  maxSize :: int
  currentSize :: int

text \<open>
  \<open>pools\<close> is the map of the \<open>ConnectionPool\<close>; \<open>connections\<close> is the buffered channel
  of capacity 10, oldest first. \<open>dialled\<close> counts the sockets created so far and
  \<open>closed\<close> lists the sockets on which \<open>Close\<close> was called.
\<close>

record world =
  pools :: "string \<rightharpoonup> NodePool"
  dialled :: nat
  closed :: "conn list"
  tick :: nat
  trace :: "event list"

definition step :: "event \<Rightarrow> world \<Rightarrow> world" where
  "step e w = w\<lparr>tick := tick w + 1, trace := trace w @ [e]\<rparr>"

definition connWrite :: "env \<Rightarrow> conn \<Rightarrow> string \<Rightarrow> world \<Rightarrow> bool \<times> world" where
  "connWrite env c bytes w = (env (tick w) \<noteq> None, step (EvWrite c bytes (env (tick w) \<noteq> None)) w)"

definition connRead :: "env \<Rightarrow> conn \<Rightarrow> world \<Rightarrow> string option \<times> world" where
  "connRead env c w = (env (tick w), step (EvRead c (env (tick w))) w)"

definition connClose :: "conn \<Rightarrow> world \<Rightarrow> world" where
  "connClose c w = w\<lparr>closed := closed w @ [c], trace := trace w @ [EvClose c]\<rparr>"

definition clientWrite :: "env \<Rightarrow> string \<Rightarrow> world \<Rightarrow> (error + unit) \<times> world" where
  "clientWrite env bytes w =
     (if env (tick w) \<noteq> None then Inr () else Inl ErrClientWrite,
      step (EvClientWrite bytes (env (tick w) \<noteq> None)) w)"

section \<open>The connection pool\<close>

text \<open>\<open>isConnectionValid\<close>: write the probe, then read up to 7 bytes.\<close>

definition isConnectionValid :: "env \<Rightarrow> conn \<Rightarrow> world \<Rightarrow> bool \<times> world" where
  "isConnectionValid env c w =
     (case connWrite env c (''PING'' @ CRLF) w of
        (False, w1) \<Rightarrow> (False, w1)
      | (True, w1) \<Rightarrow> (case connRead env c w1 of (r, w2) \<Rightarrow> (r \<noteq> None, w2)))"

definition createConnection :: "env \<Rightarrow> NodePool \<Rightarrow> world \<Rightarrow> (error + conn) \<times> NodePool \<times> world" where
  "createConnection env np w =
     (if currentSize np \<ge> maxSize np then (Inl ErrPoolFull, np, w)
      else if env (tick w) = None
      then (Inl (ErrDial (address np)), np, step (EvDial (address np) False) w)
      else (Inr (dialled w), np\<lparr>currentSize := currentSize np + 1\<rparr>,
            (step (EvDial (address np) True) w)\<lparr>dialled := dialled w + 1\<rparr>))"

text \<open>\<open>NodePool.GetConnection\<close>: the \<open>select\<close> takes an idle socket when there is one.\<close>

definition NodePool_GetConnection :: "env \<Rightarrow> NodePool \<Rightarrow> world \<Rightarrow> (error + conn) \<times> NodePool \<times> world" where
  "NodePool_GetConnection env np w =
     (case connections np of
        c # rest \<Rightarrow>
          (case isConnectionValid env c w of
             (True, w1) \<Rightarrow> (Inr c, np\<lparr>connections := rest\<rparr>, w1)
           | (False, w1) \<Rightarrow> createConnection env (np\<lparr>connections := rest\<rparr>) w1)
      | [] \<Rightarrow> createConnection env np w)"

text \<open>\<open>NodePool.ReturnConnection\<close> for a socket that is not \<open>nil\<close>.\<close>

definition NodePool_ReturnConnection :: "NodePool \<Rightarrow> conn \<Rightarrow> world \<Rightarrow> NodePool \<times> world" where
  "NodePool_ReturnConnection np c w =
     (if length (connections np) < 10 then (np\<lparr>connections := connections np @ [c]\<rparr>, w)
      else (np\<lparr>currentSize := currentSize np - 1\<rparr>, connClose c w))"

definition newNodePool :: "string \<Rightarrow> NodePool" where
  "newNodePool a = \<lparr>address = a, connections = [], maxSize = 10, currentSize = 0\<rparr>"

definition GetConnection :: "env \<Rightarrow> string \<Rightarrow> world \<Rightarrow> (error + conn) \<times> world" where
  "GetConnection env a w =
     (case NodePool_GetConnection env (case pools w a of Some np \<Rightarrow> np | None \<Rightarrow> newNodePool a) w of
        (r, np', w1) \<Rightarrow> (r, w1\<lparr>pools := (pools w1)(a \<mapsto> np')\<rparr>))"

definition ReturnConnection :: "string \<Rightarrow> conn \<Rightarrow> world \<Rightarrow> world" where
  "ReturnConnection a c w =
     (case pools w a of
        Some np \<Rightarrow>
          (case NodePool_ReturnConnection np c w of
             (np', w1) \<Rightarrow> w1\<lparr>pools := (pools w1)(a \<mapsto> np')\<rparr>)
      | None \<Rightarrow> connClose c w)"

section \<open>The proxy\<close>

subsection \<open>Routing\<close>

text \<open>The verbs of the \<open>switch\<close> in \<open>selectBackendNode\<close> whose case calls \<open>selectNodeByKey\<close>.\<close>

definition keyRoutedVerbs :: "string list" where
  "keyRoutedVerbs =
     [''GET'', ''SET'', ''GETSET'', ''SETNX'', ''SETEX'', ''PSETEX'', ''MGET'', ''MSET'', ''MSETNX'',
      ''INCR'', ''DECR'', ''INCRBY'', ''DECRBY'', ''INCRBYFLOAT'', ''APPEND'', ''STRLEN'',
      ''GETRANGE'', ''SETRANGE'', ''GETBIT'', ''SETBIT'', ''BITCOUNT'', ''BITOP'',
      ''HGET'', ''HSET'', ''HSETNX'', ''HMGET'', ''HMSET'', ''HGETALL'', ''HKEYS'', ''HVALS'',
      ''HLEN'', ''HEXISTS'', ''HDEL'', ''HINCRBY'', ''HINCRBYFLOAT'', ''HSCAN'',
      ''LPUSH'', ''RPUSH'', ''LPOP'', ''RPOP'', ''LLEN'', ''LRANGE'', ''LTRIM'', ''LINDEX'',
      ''LSET'', ''LREM'', ''LINSERT'', ''BLPOP'', ''BRPOP'', ''BRPOPLPUSH'', ''RPOPLPUSH'',
      ''SADD'', ''SREM'', ''SMEMBERS'', ''SCARD'', ''SISMEMBER'', ''SRANDMEMBER'', ''SPOP'',
      ''SMOVE'', ''SINTER'', ''SINTERSTORE'', ''SUNION'', ''SUNIONSTORE'', ''SDIFF'', ''SDIFFSTORE'',
      ''SSCAN'',
      ''ZADD'', ''ZREM'', ''ZSCORE'', ''ZINCRBY'', ''ZCARD'', ''ZCOUNT'', ''ZRANGE'', ''ZREVRANGE'',
      ''ZRANGEBYSCORE'', ''ZREVRANGEBYSCORE'', ''ZRANK'', ''ZREVRANK'', ''ZREMRANGEBYRANK'',
      ''ZREMRANGEBYSCORE'', ''ZUNIONSTORE'', ''ZINTERSTORE'', ''ZSCAN'',
      ''DEL'', ''EXISTS'', ''EXPIRE'', ''EXPIREAT'', ''TTL'', ''PTTL'', ''PERSIST'', ''TYPE'',
      ''RENAME'', ''RENAMENX'', ''MOVE'', ''DUMP'', ''RESTORE'', ''SORT'', ''TOUCH'',
      ''PFADD'', ''PFCOUNT'', ''PFMERGE'',
      ''BITFIELD'',
      ''XADD'', ''XREAD'', ''XREADGROUP'', ''XPENDING'', ''XCLAIM'', ''XACK'', ''XGROUP'',
      ''XINFO'', ''XLEN'', ''XRANGE'', ''XREVRANGE'', ''XTRIM'', ''XDEL'']"

definition selectNodeByKey :: "Config \<Rightarrow> ClusterManager \<Rightarrow> string \<Rightarrow> string list \<Rightarrow> string" where
  "selectNodeByKey cfg cm cmdName command =
     (if length command > 1 \<and> GetNodeForKey cm (command ! 1) \<noteq> []
      then GetNodeForKey cm (command ! 1)
      else if length (RedisNodes cfg) > 0 then RedisNodes cfg ! 0
      else [])"

text \<open>
  Every other case of the \<open>switch\<close>, the \<open>default\<close> included, returns
  \<open>GetRandomNode()\<close>; the cases differ in what they log.
\<close>

definition selectBackendNode :: "Config \<Rightarrow> ClusterManager \<Rightarrow> string list \<Rightarrow> string" where
  "selectBackendNode cfg cm command =
     (if length command = 0 then GetRandomNode cm
      else (let cmdName = ToUpper (command ! 0) in
            if cmdName \<in> set keyRoutedVerbs then selectNodeByKey cfg cm cmdName command
            else GetRandomNode cm))"

definition shouldAutoRedirect :: "Config \<Rightarrow> string list \<Rightarrow> bool" where
  "shouldAutoRedirect cfg command =
     (if \<not> AutoRedirect cfg then False
      else if length command > 0 \<and> ToUpper (command ! 0) \<in> {''CLUSTER'', ''INFO'', ''PING'', ''COMMAND''}
      then False
      else True)"

subsection \<open>Dispatch\<close>

definition sendCommandToBackend :: "env \<Rightarrow> conn \<Rightarrow> string list \<Rightarrow> world \<Rightarrow> bool \<times> world" where
  "sendCommandToBackend env c command w =
     (env (tick w) \<noteq> None, step (EvSendCommand c (formatCommand command) (env (tick w) \<noteq> None)) w)"

text \<open>
  \<open>readBackendResponse\<close> returns one complete reply or an error. How it frames the reply
  (\<open>readBulkStringResponse\<close>, \<open>readArrayResponse\<close>) is not modelled: the environment
  gives the reply as a whole.
\<close>

definition readBackendResponse :: "env \<Rightarrow> conn \<Rightarrow> world \<Rightarrow> string option \<times> world" where
  "readBackendResponse env c w = (env (tick w), step (EvReadReply c (env (tick w))) w)"

text \<open>
  \<open>handleAskRedirect\<close> between taking the socket and the deferred \<open>ReturnConnection\<close>.
\<close>

definition askOnConnection :: "env \<Rightarrow> string list \<Rightarrow> conn \<Rightarrow> world \<Rightarrow> (error + unit) \<times> world" where
  "askOnConnection env command c w =
     (case connWrite env c (''ASKING'' @ CRLF) w of
        (False, w1) \<Rightarrow> (Inl ErrAskSend, w1)
      | (True, w1) \<Rightarrow>
          (case connRead env c w1 of
             (None, w2) \<Rightarrow> (Inl ErrAskRead, w2)
           | (Some askingResponse, w2) \<Rightarrow>
               if \<not> HasPrefix askingResponse ''+OK'' then (Inl (ErrAskReply askingResponse), w2)
               else
                 (case sendCommandToBackend env c command w2 of
                    (False, w3) \<Rightarrow> (Inl ErrAskDispatch, w3)
                  | (True, w3) \<Rightarrow>
                      (case readBackendResponse env c w3 of
                         (None, w4) \<Rightarrow> (Inl ErrAskReadReply, w4)
                       | (Some response, w4) \<Rightarrow> clientWrite env response w4))))"

text \<open>The parameter \<open>redirectCount\<close> is not read by the body of the source function.\<close>

definition handleAskRedirect ::
  "env \<Rightarrow> string list \<Rightarrow> string \<Rightarrow> int \<Rightarrow> world \<Rightarrow> (error + unit) \<times> world" where
  "handleAskRedirect env command redirectAddr redirectCount w =
     (case GetConnection env redirectAddr w of
        (Inl e, w1) \<Rightarrow> (Inl (ErrAskConnect e), w1)
      | (Inr c, w1) \<Rightarrow>
          (case askOnConnection env command c w1 of
             (r, w2) \<Rightarrow> (r, ReturnConnection redirectAddr c w2)))"

function executeCommandWithRedirect ::
  "env \<Rightarrow> Config \<Rightarrow> string list \<Rightarrow> string \<Rightarrow> int \<Rightarrow> world \<Rightarrow> (error + unit) \<times> world" where
  "executeCommandWithRedirect env cfg command backendAddr redirectCount w =
     (if redirectCount > 5 then (Inl ErrTooManyRedirects, w)
      else
        (case GetConnection env backendAddr w of
           (Inl e, w1) \<Rightarrow> (Inl (ErrConnectBackend e), w1)
         | (Inr c, w1) \<Rightarrow>
             (case
                (case sendCommandToBackend env c command w1 of
                   (False, w2) \<Rightarrow> (Inl ErrSendBackend, w2)
                 | (True, w2) \<Rightarrow>
                     (case readBackendResponse env c w2 of
                        (None, w3) \<Rightarrow> (Inl ErrReadBackend, w3)
                      | (Some response, w3) \<Rightarrow>
                          if fst (IsMovedError response) then
                            (if shouldAutoRedirect cfg command
                             then executeCommandWithRedirect env cfg command
                                    (snd (snd (IsMovedError response))) (redirectCount + 1) w3
                             else clientWrite env response w3)
                          else if fst (IsAskError response) then
                            (if shouldAutoRedirect cfg command
                             then handleAskRedirect env command
                                    (snd (snd (IsAskError response))) (redirectCount + 1) w3
                             else clientWrite env response w3)
                          else clientWrite env response w3))
              of (r, w') \<Rightarrow> (r, ReturnConnection backendAddr c w'))))"
  by pat_completeness auto
termination
  by (relation "measure (\<lambda>(env, cfg, command, backendAddr, redirectCount, w). nat (6 - redirectCount))") auto

declare executeCommandWithRedirect.simps [simp del]

definition handleCommand ::
  "env \<Rightarrow> Config \<Rightarrow> ClusterManager \<Rightarrow> string list \<Rightarrow> world \<Rightarrow> (error + unit) \<times> world" where
  "handleCommand env cfg cm command w =
     (if length command = 0 then (Inl ErrEmptyCommand, w)
      else executeCommandWithRedirect env cfg command (selectBackendNode cfg cm command) 0 w)"

subsection \<open>The session\<close>

text \<open>
  One round of the loop of \<open>handleConnection\<close>: \<open>Stop\<close> is its \<open>return\<close> (the client
  socket is closed), \<open>Continue\<close> the next round, \<open>Panicked\<close> a run-time panic while
  parsing (a negative bulk length given to \<open>make\<close>), which nothing recovers from. The
  text of an error, \<open>err.Error()\<close>, and the text sent on a malformed request are
  parameters.
\<close>

datatype session = Continue | Stop | Panicked

definition sendError :: "env \<Rightarrow> string \<Rightarrow> world \<Rightarrow> world" where
  "sendError env message w = snd (clientWrite env (FormatError message) w)"

definition handleConnectionRound ::
  "(error \<Rightarrow> string) \<Rightarrow> string \<Rightarrow> env \<Rightarrow> Config \<Rightarrow> ClusterManager \<Rightarrow> reader \<Rightarrow> world
     \<Rightarrow> session \<times> reader \<times> world" where
  "handleConnectionRound errorText protocolErrorText env cfg cm r w =
     (case ParseCommand r of
        (Inl e, r1) \<Rightarrow>
          (case e of
             PanicMakeSlice n \<Rightarrow> (Panicked, r1, w)
           | EOF \<Rightarrow> (Stop, r1, w)
           | _ \<Rightarrow> (Stop, r1, sendError env protocolErrorText w))
      | (Inr command, r1) \<Rightarrow>
          if length command = 0 then (Continue, r1, w)
          else
            (case handleCommand env cfg cm command w of
               (Inl e, w1) \<Rightarrow> (Continue, r1, sendError env (errorText e) w1)
             | (Inr u, w1) \<Rightarrow> (Continue, r1, w1)))"

text \<open>The sockets that are dispatched to, in order: one entry for each call of
  \<open>sendCommandToBackend\<close>.\<close>

fun dispatches :: "event list \<Rightarrow> conn list" where
  "dispatches [] = []"
| "dispatches (EvSendCommand c bytes ok # es) = c # dispatches es"
| "dispatches (e # es) = dispatches es"

text \<open>The bytes written on backend sockets outside \<open>sendCommandToBackend\<close>, in order:
  the probe of the pool and the handshake of \<open>handleAskRedirect\<close>.\<close>

fun rawWrites :: "event list \<Rightarrow> (conn \<times> string) list" where
  "rawWrites [] = []"
| "rawWrites (EvWrite c bytes ok # es) = (c, bytes) # rawWrites es"
| "rawWrites (e # es) = rawWrites es"

subsection \<open>Concrete inputs\<close>

text \<open>
  An environment given by the list of its first outcomes (every later operation fails),
  a configuration with one seed node, a cluster manager before its first refresh, a world
  with no pool and no socket, and the two redirect replies.
\<close>

definition script :: "string option list \<Rightarrow> env" where
  "script xs = (\<lambda>t. if t < length xs then xs ! t else None)"

definition seedConfig :: Config where
  "seedConfig = \<lparr>ProxyPort = 6379, RedisNodes = [''10.0.0.1:7000''], AutoRedirect = True,
                  LogLevel = ''info'', LogFile = []\<rparr>"

definition coldCluster :: ClusterManager where
  "coldCluster = \<lparr>nodes = [], slots = (\<lambda>_. []), config = seedConfig\<rparr>"

definition freshWorld :: world where
  "freshWorld = \<lparr>pools = Map.empty, dialled = 0, closed = [], tick = 0, trace = []\<rparr>"

definition movedReply :: string where
  "movedReply = ''-MOVED 12182 10.0.0.2:7000'' @ CRLF"

definition askReply :: string where
  "askReply = ''-ASK 12182 10.0.0.3:7000'' @ CRLF"

section \<open>The slot of a key\<close>

lemma calculateSlot_range: "0 \<le> calculateSlot key \<and> calculateSlot key < 16384"
  by (simp add: calculateSlot_def)

text \<open>
  C1, as amended. \<open>crc16CCITT\<close> starts from \<open>0x0000\<close>, shifts left and folds in the
  polynomial \<open>0x1021\<close>, with no reflection and no final XOR; the slot is that value
  modulo 16384. On the test inputs it gives: \<open>0x0000\<close> for the empty string, \<open>0x31C3\<close>
  for \<open>"123456789"\<close>, \<open>0xAF96\<close> for \<open>"foo"\<close>, slot 12182 for \<open>"foo"\<close>, and, the hash
  tag of \<open>"{foo}bar"\<close> being \<open>"foo"\<close>, slot 12182 for \<open>"{foo}bar"\<close> too.
\<close>

theorem crc16_vectors:
  "crc16CCITT [] = 0x0000 \<and> crc16CCITT ''123456789'' = 0x31C3 \<and> crc16CCITT ''foo'' = 0xAF96
   \<and> calculateSlot ''foo'' = 12182 \<and> routingKey ''{foo}bar'' = ''foo''
   \<and> calculateSlot ''{foo}bar'' = 12182"
  by code_simp

text \<open>
  C1, as stated, fails: the CRC of \<open>"123456789"\<close> is not \<open>0x29B1\<close> (that is the value
  for the initial value \<open>0xFFFF\<close>), the CRC of \<open>"foo"\<close> is not \<open>0x7B30\<close> and the slot of
  \<open>"foo"\<close> is not 7365.
\<close>

theorem crc16_vectors_counterexample:
  "\<not> (crc16CCITT ''123456789'' = 0x29B1 \<and> crc16CCITT ''foo'' = 0x7B30 \<and> calculateSlot ''foo'' = 7365)"
  by code_simp

text \<open>
  C2. The claim: a key whose first \<open>{\<close> is directly followed by \<open>}\<close> is hashed as a
  whole. \<open>calculateSlot\<close> tests only that a \<open>}\<close> follows (\<open>end != -1\<close>), not that
  something stands in between: for \<open>"{}abc"\<close> it hashes the empty string and answers
  slot 0, where the whole key has slot 5980.
\<close>

theorem empty_hash_tag_hashes_empty_string:
  "routingKey ''{}abc'' = [] \<and> calculateSlot ''{}abc'' = 0
   \<and> uint (crc16CCITT ''{}abc'') mod 16384 = 5980"
  by code_simp

text \<open>The other cases of C2 are as the claim says.\<close>

lemma routingKey_examples:
  "routingKey ''abc{'' = ''abc{'' \<and> routingKey ''{'' = ''{'' \<and> routingKey ''{a}{b}'' = ''a''"
  by code_simp

lemma routingKey_no_open: "Index key (CHR ''{'') = -1 \<Longrightarrow> routingKey key = key"
  by (simp add: routingKey_def)

lemma routingKey_no_close:
  "Index key (CHR ''{'') = start \<Longrightarrow> Index (drop (nat (start + 1)) key) (CHR ''}'') = -1
   \<Longrightarrow> routingKey key = key"
  by (simp add: routingKey_def Let_def)

text \<open>
  C10. \<open>GetNodeForSlot\<close> is total: for every integer \<open>slot\<close> it returns a string and
  never fails the bounds check of the array; the string is the stored owner when
  \<open>0 \<le> slot < 16384\<close> and the empty string otherwise.
\<close>

theorem GetNodeForSlot_total:
  "GetNodeForSlot cm slot = Inr (if 0 \<le> slot \<and> slot < 16384 then slots cm (nat slot) else [])"
  by (simp add: GetNodeForSlot_def slots_get_def)

section \<open>Routing a command without a key\<close>

text \<open>Whatever the verb, \<open>selectNodeByKey\<close> on a command with no key argument falls
  back to the first seed node.\<close>

lemma selectNodeByKey_without_key:
  "length command < 2 \<Longrightarrow> RedisNodes cfg \<noteq> [] \<Longrightarrow>
   selectNodeByKey cfg cm cmdName command = RedisNodes cfg ! 0"
  by (simp add: selectNodeByKey_def)

text \<open>
  C9. A command that has a verb and nothing else, the verb being one of the key-routed
  ones in any mix of upper and lower case, is routed to the first seed node of the
  configuration. (\<open>ValidateConfig\<close> refuses a configuration with no seed node.)
\<close>

theorem key_routed_without_key_uses_first_seed:
  assumes "command \<noteq> []" and "length command < 2"
    and "ToUpper (command ! 0) \<in> set keyRoutedVerbs"
    and "RedisNodes cfg \<noteq> []"
  shows "selectBackendNode cfg cm command = RedisNodes cfg ! 0"
  using assms by (simp add: selectBackendNode_def selectNodeByKey_def Let_def)

text \<open>C9 at the command \<open>get\<close> with two seed nodes.\<close>

theorem key_routed_without_key_uses_first_seed_witness:
  "[''get''] \<noteq> [] \<and> length [''get''] < 2 \<and> ToUpper ([''get''] ! 0) \<in> set keyRoutedVerbs
   \<and> RedisNodes \<lparr>ProxyPort = 6379, RedisNodes = [''10.0.0.1:7000'', ''10.0.0.1:7001''],
         AutoRedirect = True, LogLevel = ''info'', LogFile = []\<rparr> \<noteq> []
   \<and> selectBackendNode \<lparr>ProxyPort = 6379, RedisNodes = [''10.0.0.1:7000'', ''10.0.0.1:7001''],
         AutoRedirect = True, LogLevel = ''info'', LogFile = []\<rparr>
        \<lparr>nodes = [], slots = (\<lambda>_. ''10.0.0.1:7001''), config = \<lparr>ProxyPort = 6379, RedisNodes = [''10.0.0.1:7000'', ''10.0.0.1:7001''],
         AutoRedirect = True, LogLevel = ''info'', LogFile = []\<rparr>\<rparr> [''get''] = ''10.0.0.1:7000''"
proof -
  have up: "ToUpper ([''get''] ! 0) \<in> set keyRoutedVerbs"
    by code_simp
  show ?thesis
    using up key_routed_without_key_uses_first_seed
      [of "[''get'']" "\<lparr>ProxyPort = 6379, RedisNodes = [''10.0.0.1:7000'', ''10.0.0.1:7001''],
         AutoRedirect = True, LogLevel = ''info'', LogFile = []\<rparr>"
        "\<lparr>nodes = [], slots = (\<lambda>_. ''10.0.0.1:7001''), config = \<lparr>ProxyPort = 6379, RedisNodes = [''10.0.0.1:7000'', ''10.0.0.1:7001''],
         AutoRedirect = True, LogLevel = ''info'', LogFile = []\<rparr>\<rparr>"]
    by simp
qed

section \<open>Slot ranges of a topology\<close>

text \<open>
  C8. The claim: every parsed range satisfies \<open>0 \<le> start \<le> end \<le> 16383\<close> and the
  rebuild of the owner array stays inside it. \<open>parseSlotRange\<close> checks no bound: it
  accepts the slot 16384 and the range 7-3, and on a master line that names slot 16384
  \<open>parseClusterNodes\<close> writes \<open>cm.slots[16384]\<close>, which panics.
\<close>

theorem slot_range_out_of_bounds:
  "parseSlotRange ''16384'' = Inr \<lparr>Start = 16384, End = 16384\<rparr>
   \<and> parseSlotRange ''7-3'' = Inr \<lparr>Start = 7, End = 3\<rparr>
   \<and> parseClusterNodes cm ''n1 10.0.0.1:7000@17000 master - 0 0 1 connected 16384''
       = Inl (PanicIndexOutOfRange 16384)"
proof (intro conjI)
  show "parseSlotRange ''16384'' = Inr \<lparr>Start = 16384, End = 16384\<rparr>"
    by code_simp
  show "parseSlotRange ''7-3'' = Inr \<lparr>Start = 7, End = 3\<rparr>"
    by code_simp
  have line: "parseNodeLine ''n1 10.0.0.1:7000@17000 master - 0 0 1 connected 16384''
     = Inr \<lparr>ID = ''n1'', Address = ''10.0.0.1:7000'', IsMaster = True,
        Slots = [\<lparr>Start = 16384, End = 16384\<rparr>], Flags = [''master''],
        Master = ''-'', Health = True\<rparr>"
    by code_simp
  have trim: "TrimSpace ''n1 10.0.0.1:7000@17000 master - 0 0 1 connected 16384''
     = ''n1 10.0.0.1:7000@17000 master - 0 0 1 connected 16384''"
    by code_simp
  have split: "Split ''n1 10.0.0.1:7000@17000 master - 0 0 1 connected 16384'' LF
     = [''n1 10.0.0.1:7000@17000 master - 0 0 1 connected 16384'']"
    by code_simp
  show "parseClusterNodes cm ''n1 10.0.0.1:7000@17000 master - 0 0 1 connected 16384''
       = Inl (PanicIndexOutOfRange 16384)"
    unfolding parseClusterNodes_def trim split
    by (simp add: line trim fillSlots.simps del: parseNodeLine_def)
qed

section \<open>Framing a command and parsing it back\<close>

lemma digitVal_digitChar: "d < 10 \<Longrightarrow> digitVal (digitChar d) = Some d"
  by (simp add: digitVal_def digitChar_def Let_def)

lemma isDigit_digitChar: "d < 10 \<Longrightarrow> isDigit (digitChar d)"
  by (simp add: isDigit_def digitChar_def)

lemma isDigit_not_special:
  "isDigit c \<Longrightarrow> \<not> isSpace c \<and> c \<noteq> LF \<and> c \<noteq> CHR ''-'' \<and> c \<noteq> CHR ''+''"
  by (auto simp: isDigit_def isSpace_def)

lemma parseDigits_append:
  "parseDigits acc (xs @ ys) = (case parseDigits acc xs of None \<Rightarrow> None | Some a \<Rightarrow> parseDigits a ys)"
  by (induction xs arbitrary: acc) (auto split: option.splits)

lemma parseDigits_natToDec: "parseDigits 0 (natToDec n) = Some n"
proof (induction n rule: natToDec.induct)
  case (1 n)
  show ?case
  proof (cases "n < 10")
    case True
    then show ?thesis
      by (subst natToDec.simps) (simp add: digitVal_digitChar)
  next
    case False
    with 1 have ih: "parseDigits 0 (natToDec (n div 10)) = Some (n div 10)" by simp
    have "n mod 10 < 10" by simp
    then have d: "digitVal (digitChar (n mod 10)) = Some (n mod 10)"
      by (rule digitVal_digitChar)
    from False show ?thesis
      by (subst natToDec.simps) (simp add: parseDigits_append ih d)
  qed
qed

lemma natToDec_digits: "natToDec n \<noteq> [] \<and> (\<forall>c \<in> set (natToDec n). isDigit c)"
proof (induction n rule: natToDec.induct)
  case (1 n)
  show ?case
  proof (cases "n < 10")
    case True
    then show ?thesis
      by (subst (1 2) natToDec.simps) (simp add: isDigit_digitChar)
  next
    case False
    with 1 have ih: "\<forall>c \<in> set (natToDec (n div 10)). isDigit c" by simp
    have "isDigit (digitChar (n mod 10))" by (simp add: isDigit_digitChar)
    with False ih show ?thesis
      by (subst (1 2) natToDec.simps) auto
  qed
qed

lemma Atoi_natToDec:
  assumes "n < 2 ^ 63"
  shows "Atoi (natToDec n) = Some (int n)"
proof -
  obtain c cs where s: "natToDec n = c # cs"
    using natToDec_digits [of n] by (cases "natToDec n") auto
  have "isDigit c" using natToDec_digits [of n] s by simp
  then have c: "c \<noteq> CHR ''-''" "c \<noteq> CHR ''+''"
    using isDigit_not_special by blast+
  have p: "parseDigits 0 (c # cs) = Some n"
    using parseDigits_natToDec [of n] s by simp
  have "int n \<le> 2 ^ 63 - 1" using assms
    by (metis int_ops(3) of_nat_less_iff of_nat_numeral of_nat_power zle_diff1_eq)
  then show ?thesis
    unfolding Atoi_def s using c p by (simp del: parseDigits.simps)
qed

lemma Atoi_Itoa_length: "length (xs :: 'a list) < 2 ^ 63 \<Longrightarrow> Atoi (Itoa (int (length xs))) = Some (int (length xs))"
  by (simp add: Itoa_def Atoi_natToDec)

lemma Itoa_length_digits:
  "Itoa (int (length (xs :: 'a list))) \<noteq> [] \<and> (\<forall>c \<in> set (Itoa (int (length xs))). isDigit c)"
  using natToDec_digits [of "length xs"] by (simp add: Itoa_def)

lemma ReadString_line:
  "LF \<notin> set line \<Longrightarrow> ReadString (line @ LF # rest) = (Inr (line @ [LF]), rest)"
proof -
  assume a: "LF \<notin> set line"
  then have "\<forall>c \<in> set line. c \<noteq> LF" by auto
  then have t: "takeWhile (\<lambda>c. c \<noteq> LF) (line @ LF # rest) = line"
    and d: "dropWhile (\<lambda>c. c \<noteq> LF) (line @ LF # rest) = LF # rest"
    by (simp_all add: takeWhile_append2 dropWhile_append2)
  show ?thesis by (simp add: ReadString_def t d)
qed

lemma TrimSpace_header:
  assumes "\<not> isSpace x" and "ds \<noteq> []" and "\<forall>c \<in> set ds. \<not> isSpace c"
  shows "TrimSpace (x # ds @ CRLF) = x # ds"
proof -
  have 1: "dropWhile isSpace (x # ds @ CRLF) = x # ds @ CRLF"
    using assms(1) by simp
  have "hd (rev ds @ [x]) = last ds"
    using assms(2) by (simp add: hd_rev)
  then have "\<not> isSpace (hd (rev ds @ [x]))"
    using assms(2,3) by simp
  then have "dropWhile isSpace (rev ds @ [x]) = rev ds @ [x]"
    by (simp add: dropWhile_eq_self_iff)
  then have 2: "dropWhile isSpace (rev (x # ds @ CRLF)) = rev ds @ [x]"
    by (simp add: isSpace_def)
  show ?thesis
    unfolding TrimSpace_def 1 2 by simp
qed

lemma parseBulkString_formatArg:
  assumes "length a < 2 ^ 63"
  shows "parseBulkString (formatArg a @ rest) = (Inr a, rest)"
proof -
  let ?ds = "Itoa (int (length a))"
  have dig: "?ds \<noteq> []" "\<forall>c \<in> set ?ds. isDigit c"
    using Itoa_length_digits [of a] by simp_all
  have nolf: "LF \<notin> set (CHR ''$'' # ?ds @ [CR])"
    using dig(2) isDigit_not_special by auto
  have rd: "ReadString (formatArg a @ rest) = (Inr (CHR ''$'' # ?ds @ CRLF), a @ CRLF @ rest)"
    using ReadString_line [OF nolf, of "a @ CRLF @ rest"] by (simp add: formatArg_def)
  have tr: "TrimSpace (CHR ''$'' # ?ds @ CRLF) = CHR ''$'' # ?ds"
    using dig isDigit_not_special by (intro TrimSpace_header) (auto simp: isSpace_def)
  have at: "Atoi ?ds = Some (int (length a))"
    using assms by (rule Atoi_Itoa_length)
  have tail: "snd (ReadString (CRLF @ rest)) = rest"
    using ReadString_line [of "[CR]" rest] by simp
  have rf: "ReadFull (length a) (a @ CR # LF # rest) = (Inr a, CR # LF # rest)"
    by (simp add: ReadFull_def)
  have "parseBulkString (formatArg a @ rest) =
          (if length a = 0 then (Inr [], snd (ReadString (a @ CRLF @ rest)))
           else (Inr a, snd (ReadString (CRLF @ rest))))"
    by (simp add: parseBulkString_def rd tr at rf del: ReadString_def)
  then show ?thesis
    using tail by (cases "a = []") simp_all
qed

lemma parseBulkStrings_format:
  assumes "\<forall>a \<in> set command. length a < 2 ^ 63"
  shows "parseBulkStrings (length command) (concat (map formatArg command) @ rest) = (Inr command, rest)"
  using assms
proof (induction command)
  case Nil
  then show ?case by simp
next
  case (Cons a command)
  then have a: "length a < 2 ^ 63" and ih: "parseBulkStrings (length command) (concat (map formatArg command) @ rest) = (Inr command, rest)"
    by simp_all
  show ?case
    using parseBulkString_formatArg [OF a, of "concat (map formatArg command) @ rest"] ih
    by simp
qed

lemma ParseCommand_formatCommand_rest:
  assumes "length command < 2 ^ 63" and "\<forall>a \<in> set command. length a < 2 ^ 63"
  shows "ParseCommand (formatCommand command @ rest) = (Inr command, rest)"
proof -
  let ?ds = "Itoa (int (length command))"
  let ?body = "concat (map formatArg command) @ rest"
  have dig: "?ds \<noteq> []" "\<forall>c \<in> set ?ds. isDigit c"
    using Itoa_length_digits [of command] by simp_all
  have nolf: "LF \<notin> set (CHR ''*'' # ?ds @ [CR])"
    using dig(2) isDigit_not_special by auto
  have rd: "ReadString (formatCommand command @ rest) = (Inr (CHR ''*'' # ?ds @ CRLF), ?body)"
    using ReadString_line [OF nolf, of ?body] by (simp add: formatCommand_def)
  have tr: "TrimSpace (CHR ''*'' # ?ds @ CRLF) = CHR ''*'' # ?ds"
    using dig isDigit_not_special by (intro TrimSpace_header) (auto simp: isSpace_def)
  have at: "Atoi ?ds = Some (int (length command))"
    using assms(1) by (rule Atoi_Itoa_length)
  have "parseArrayCommand ?body (CHR ''*'' # ?ds) =
          (if length command = 0 then (Inr [], ?body) else parseBulkStrings (length command) ?body)"
    by (simp add: parseArrayCommand_def at)
  then have arr: "parseArrayCommand ?body (CHR ''*'' # ?ds) = (Inr command, rest)"
    using parseBulkStrings_format [OF assms(2), of rest] by (cases "command = []") simp_all
  show ?thesis
    by (simp add: ParseCommand_def rd tr arr)
qed

text \<open>
  C7. For every command whose number of arguments and whose argument lengths fit Go's
  \<open>int\<close> (as every Go slice and string does), parsing the bytes that
  \<open>sendCommandToBackend\<close> builds for it gives back exactly its arguments and leaves no
  byte unread. The arguments are arbitrary bytes.
\<close>

theorem format_then_parse_roundtrip:
  assumes "length command < 2 ^ 63" and "\<forall>a \<in> set command. length a < 2 ^ 63"
  shows "ParseCommand (formatCommand command) = (Inr command, [])"
  using ParseCommand_formatCommand_rest [OF assms, of "[]"] by simp

text \<open>C7 at a command with an empty argument and one holding CR, LF, 0x00 and 0xFF.\<close>

theorem format_then_parse_roundtrip_witness:
  "length [''SET'', ''k'', [], [CR, LF, CHR 0x00, CHR 0xFF]] < 2 ^ 63
   \<and> list_all (\<lambda>a. length a < 2 ^ 63) [''SET'', ''k'', [], [CR, LF, CHR 0x00, CHR 0xFF]]
   \<and> ParseCommand (formatCommand [''SET'', ''k'', [], [CR, LF, CHR 0x00, CHR 0xFF]])
       = (Inr [''SET'', ''k'', [], [CR, LF, CHR 0x00, CHR 0xFF]], [])"
  using format_then_parse_roundtrip [of "[''SET'', ''k'', [], [CR, LF, CHR 0x00, CHR 0xFF]]"]
  by simp

section \<open>What the operations do to the world\<close>

lemma dispatches_append: "dispatches (xs @ ys) = dispatches xs @ dispatches ys"
  by (induction xs rule: dispatches.induct) simp_all

lemma rawWrites_append: "rawWrites (xs @ ys) = rawWrites xs @ rawWrites ys"
  by (induction xs rule: rawWrites.induct) simp_all

lemma step_fields:
  "tick (step e w) = Suc (tick w)" "trace (step e w) = trace w @ [e]"
  "closed (step e w) = closed w" "pools (step e w) = pools w" "dialled (step e w) = dialled w"
  by (simp_all add: step_def)

lemma NodePool_GetConnection_closed:
  "closed (snd (snd (NodePool_GetConnection env np w))) = closed w"
  by (simp add: NodePool_GetConnection_def isConnectionValid_def createConnection_def
        connWrite_def connRead_def step_def split: list.splits prod.splits bool.splits)

lemma GetConnection_closed: "closed (snd (GetConnection env a w)) = closed w"
proof -
  let ?np = "case pools w a of Some np \<Rightarrow> np | None \<Rightarrow> newNodePool a"
  obtain r np' w1 where n: "NodePool_GetConnection env ?np w = (r, np', w1)"
    by (metis prod_cases3)
  then have "closed w1 = closed w"
    using NodePool_GetConnection_closed [of env ?np w] by simp
  with n show ?thesis by (simp add: GetConnection_def)
qed

lemma GetConnection_pool: "\<exists>np. pools (snd (GetConnection env a w)) a = Some np"
  by (simp add: GetConnection_def split: prod.splits)

lemma ReturnConnection_pooled:
  assumes "pools w a = Some np"
  shows "if length (connections np) < 10
         then closed (ReturnConnection a c w) = closed w
              \<and> map_option connections (pools (ReturnConnection a c w) a) = Some (connections np @ [c])
              \<and> trace (ReturnConnection a c w) = trace w
         else closed (ReturnConnection a c w) = closed w @ [c]
              \<and> map_option currentSize (pools (ReturnConnection a c w) a) = Some (currentSize np - 1)
              \<and> trace (ReturnConnection a c w) = trace w @ [EvClose c]"
  using assms by (simp add: ReturnConnection_def NodePool_ReturnConnection_def connClose_def)

lemma ReturnConnection_trace:
  "trace (ReturnConnection a c w) = trace w \<or> trace (ReturnConnection a c w) = trace w @ [EvClose c]"
  by (simp add: ReturnConnection_def NodePool_ReturnConnection_def connClose_def
        split: option.splits prod.splits)

lemma round_continues:
  "ParseCommand r = (Inr command, r1) \<Longrightarrow>
   fst (handleConnectionRound errorText protocolErrorText env cfg cm r w) = Continue"
  by (simp add: handleConnectionRound_def split: prod.splits sum.splits)

lemmas io_defs = connWrite_def connRead_def sendCommandToBackend_def
  readBackendResponse_def clientWrite_def step_fields

lemma askOnConnection_trace:
  "\<exists>rest. trace (snd (askOnConnection env command c w))
            = trace w @ EvWrite c (''ASKING'' @ CRLF) (env (tick w) \<noteq> None) # rest
        \<and> rawWrites rest = []
        \<and> (if env (tick w) \<noteq> None \<and> (\<exists>l. env (Suc (tick w)) = Some l \<and> HasPrefix l ''+OK'')
           then \<exists>rest'. rest = EvRead c (env (Suc (tick w)))
                               # EvSendCommand c (formatCommand command) (env (Suc (Suc (tick w))) \<noteq> None)
                               # rest'
                          \<and> dispatches rest' = []
           else dispatches rest = [] \<and> (\<exists>e. fst (askOnConnection env command c w) = Inl e))"
proof (cases "env (tick w)")
  case None
  then show ?thesis by (simp add: askOnConnection_def io_defs)
next
  case wr: (Some x)
  show ?thesis
  proof (cases "env (Suc (tick w))")
    case None
    with wr show ?thesis by (simp add: askOnConnection_def io_defs)
  next
    case rd: (Some l)
    show ?thesis
    proof (cases "HasPrefix l ''+OK''")
      case False
      with wr rd show ?thesis by (simp add: askOnConnection_def io_defs)
    next
      case ok: True
      show ?thesis
      proof (cases "env (Suc (Suc (tick w)))")
        case None
        with wr rd ok show ?thesis by (simp add: askOnConnection_def io_defs)
      next
        case sd: (Some y)
        show ?thesis
        proof (cases "env (Suc (Suc (Suc (tick w))))")
          case None
          with wr rd ok sd show ?thesis by (simp add: askOnConnection_def io_defs)
        next
          case (Some response)
          with wr rd ok sd show ?thesis by (simp add: askOnConnection_def io_defs)
        qed
      qed
    qed
  qed
qed

section \<open>The size of a node pool\<close>

text \<open>
  In a world whose sockets all belong to one pool, \<open>currentSize\<close> stays equal to the
  number of sockets dialled minus the number closed, across \<open>GetConnection\<close> and
  \<open>ReturnConnection\<close>. After a failed probe the equation survives only because the
  socket that failed is not closed.
\<close>

lemma isConnectionValid_frame:
  "dialled (snd (isConnectionValid env c w)) = dialled w
   \<and> closed (snd (isConnectionValid env c w)) = closed w"
  by (cases "env (tick w)")
     (simp_all add: isConnectionValid_def connWrite_def connRead_def step_def)

lemma createConnection_count:
  assumes "createConnection env np w = (r, np', w')"
    and "currentSize np = int (dialled w) - int (length (closed w))"
  shows "currentSize np' = int (dialled w') - int (length (closed w'))"
  using assms by (auto simp: createConnection_def step_def split: if_splits)

lemma NodePool_GetConnection_count:
  assumes "NodePool_GetConnection env np w = (r, np', w')"
    and "currentSize np = int (dialled w) - int (length (closed w))"
  shows "currentSize np' = int (dialled w') - int (length (closed w'))"
proof (cases "connections np")
  case Nil
  with assms show ?thesis
    by (simp add: NodePool_GetConnection_def createConnection_count)
next
  case (Cons c rest)
  obtain ok w1 where v: "isConnectionValid env c w = (ok, w1)"
    by (cases "isConnectionValid env c w")
  then have f: "dialled w1 = dialled w" "closed w1 = closed w"
    using isConnectionValid_frame [of env c w] by simp_all
  show ?thesis
  proof (cases ok)
    case True
    with assms Cons v f show ?thesis
      by (auto simp: NodePool_GetConnection_def)
  next
    case False
    with assms Cons v have "createConnection env (np\<lparr>connections := rest\<rparr>) w1 = (r, np', w')"
      by (simp add: NodePool_GetConnection_def)
    then show ?thesis
      using assms(2) f createConnection_count [of env "np\<lparr>connections := rest\<rparr>" w1 r np' w']
      by simp
  qed
qed

lemma NodePool_ReturnConnection_count:
  assumes "NodePool_ReturnConnection np c w = (np', w')"
    and "currentSize np = int (dialled w) - int (length (closed w))"
  shows "currentSize np' = int (dialled w') - int (length (closed w'))"
  using assms
  by (auto simp: NodePool_ReturnConnection_def connClose_def split: if_splits)

text \<open>
  C6. The claim: an idle socket that fails the probe is closed and gives up its place in
  \<open>currentSize\<close>. \<open>NodePool.GetConnection\<close> drops such a socket without closing it
  and without decrementing \<open>currentSize\<close>, as \<open>ReturnConnection\<close> does for a socket
  it cannot keep. First input: one idle socket, \<open>currentSize = 1\<close>, the probe fails
  and the dial succeeds; afterwards \<open>currentSize = 2\<close>, nothing is closed, and socket 0 is
  neither idle nor handed out. Second input: the same with \<open>currentSize = 10\<close>; the call
  fails with a full pool although the dead socket was the one idle.
\<close>

theorem failed_probe_leaks_socket:
  "(case NodePool_GetConnection (script [None, Some []])
          \<lparr>address = ''10.0.0.1:7000'', connections = [0], maxSize = 10, currentSize = 1\<rparr>
          (freshWorld\<lparr>dialled := 1\<rparr>) of
      (r, np, w) \<Rightarrow> r = Inr 1 \<and> connections np = [] \<and> currentSize np = 2 \<and> closed w = []
          \<and> trace w = [EvWrite 0 (''PING'' @ CRLF) False, EvDial ''10.0.0.1:7000'' True])
   \<and> (case NodePool_GetConnection (script [None, Some []])
          \<lparr>address = ''10.0.0.1:7000'', connections = [0], maxSize = 10, currentSize = 10\<rparr>
          (freshWorld\<lparr>dialled := 10\<rparr>) of
      (r, np, w) \<Rightarrow> r = Inl ErrPoolFull \<and> connections np = [] \<and> currentSize np = 10 \<and> closed w = []
          \<and> trace w = [EvWrite 0 (''PING'' @ CRLF) False])"
  by code_simp

section \<open>Redirections\<close>

lemma NodePool_GetConnection_dispatches:
  "dispatches (trace (snd (snd (NodePool_GetConnection env np w)))) = dispatches (trace w)"
  by (simp add: NodePool_GetConnection_def isConnectionValid_def createConnection_def
        connWrite_def connRead_def step_def dispatches_append
        split: list.splits prod.splits bool.splits)

lemma GetConnection_dispatches:
  "dispatches (trace (snd (GetConnection env a w))) = dispatches (trace w)"
proof -
  let ?np = "case pools w a of Some np \<Rightarrow> np | None \<Rightarrow> newNodePool a"
  obtain r np' w1 where n: "NodePool_GetConnection env ?np w = (r, np', w1)"
    by (metis prod_cases3)
  then have "dispatches (trace w1) = dispatches (trace w)"
    using NodePool_GetConnection_dispatches [of env ?np w] by simp
  with n show ?thesis by (simp add: GetConnection_def)
qed

lemma ReturnConnection_dispatches:
  "dispatches (trace (ReturnConnection a c w)) = dispatches (trace w)"
  using ReturnConnection_trace [of a c w] by (auto simp: dispatches_append)

lemma askOnConnection_dispatches:
  "length (dispatches (trace (snd (askOnConnection env command c w))))
     \<le> Suc (length (dispatches (trace w)))"
  using askOnConnection_trace [of env command c w]
  by (auto simp: dispatches_append split: if_splits)

lemma handleAskRedirect_dispatches:
  "length (dispatches (trace (snd (handleAskRedirect env command a rc w))))
     \<le> Suc (length (dispatches (trace w)))"
proof (cases "GetConnection env a w")
  case (Pair r w1)
  then have d: "dispatches (trace w1) = dispatches (trace w)"
    using GetConnection_dispatches [of env a w] by simp
  show ?thesis
  proof (cases r)
    case (Inl e)
    with Pair d show ?thesis by (simp add: handleAskRedirect_def)
  next
    case (Inr c)
    obtain res w2 where ask: "askOnConnection env command c w1 = (res, w2)"
      by (cases "askOnConnection env command c w1")
    with Pair Inr d askOnConnection_dispatches [of env command c w1] show ?thesis
      by (simp add: handleAskRedirect_def ReturnConnection_dispatches)
  qed
qed


lemma snd_case_return: "snd (case p of (r, w') \<Rightarrow> (r, f w')) = f (snd p)"
  by (cases p) simp

lemma execute_dispatch_bound:
  "0 \<le> rc \<Longrightarrow>
   length (dispatches (trace (snd (executeCommandWithRedirect env cfg command a rc w))))
     \<le> length (dispatches (trace w)) + nat (7 - rc)"
proof (induction env cfg command a rc w rule: executeCommandWithRedirect.induct)
  case (1 env cfg command backendAddr redirectCount w)
  show ?case
  proof (cases "redirectCount > 5")
    case True
    then show ?thesis by (subst executeCommandWithRedirect.simps) simp
  next
    case small: False
    obtain r w1 where gc: "GetConnection env backendAddr w = (r, w1)"
      by (cases "GetConnection env backendAddr w")
    then have d1: "dispatches (trace w1) = dispatches (trace w)"
      using GetConnection_dispatches [of env backendAddr w] by simp
    show ?thesis
    proof (cases r)
      case (Inl e)
      with small gc d1 show ?thesis by (subst executeCommandWithRedirect.simps) simp
    next
      case (Inr c)
      show ?thesis
      proof (cases "env (tick w1)")
        case None
        with small gc Inr d1 "1.prems" show ?thesis
          by (subst executeCommandWithRedirect.simps)
             (simp add: sendCommandToBackend_def step_fields ReturnConnection_dispatches dispatches_append)
      next
        case sent: (Some x)
        let ?w2 = "step (EvSendCommand c (formatCommand command) True) w1"
        have sd: "sendCommandToBackend env c command w1 = (True, ?w2)"
          using sent by (simp add: sendCommandToBackend_def)
        have d2: "length (dispatches (trace ?w2)) = Suc (length (dispatches (trace w)))"
          using d1 by (simp add: step_fields dispatches_append)
        show ?thesis
        proof (cases "env (tick ?w2)")
          case None
          with small gc Inr sd d2 "1.prems" show ?thesis
            by (subst executeCommandWithRedirect.simps)
               (simp add: readBackendResponse_def step_fields ReturnConnection_dispatches dispatches_append)
        next
          case (Some response)
          let ?w3 = "step (EvReadReply c (Some response)) ?w2"
          have rd: "readBackendResponse env c ?w2 = (Some response, ?w3)"
            using Some by (simp add: readBackendResponse_def)
          have d3: "length (dispatches (trace ?w3)) = Suc (length (dispatches (trace w)))"
            using d2 by (simp add: step_fields dispatches_append)
          have cw: "length (dispatches (trace (snd (clientWrite env response ?w3))))
                      = Suc (length (dispatches (trace w)))"
            using d3 by (simp add: clientWrite_def step_fields dispatches_append)
          have ih: "fst (IsMovedError response) \<Longrightarrow> shouldAutoRedirect cfg command \<Longrightarrow>
              length (dispatches (trace (snd (executeCommandWithRedirect env cfg command
                   (snd (snd (IsMovedError response))) (redirectCount + 1) ?w3))))
                \<le> length (dispatches (trace ?w3)) + nat (7 - (redirectCount + 1))"
            using "1.IH" [OF small gc [unfolded Inr, symmetric] _ sd [symmetric] _ rd [symmetric]] "1.prems"
            by simp
          have ask: "length (dispatches (trace (snd (handleAskRedirect env command
                   (snd (snd (IsAskError response))) (redirectCount + 1) ?w3))))
                \<le> Suc (length (dispatches (trace ?w3)))"
            by (rule handleAskRedirect_dispatches)
          from small gc Inr sd rd d3 cw ih ask "1.prems" show ?thesis
            by (subst executeCommandWithRedirect.simps)
               (auto simp: ReturnConnection_dispatches snd_case_return)
        qed
      qed
    qed
  qed
qed

lemma handleCommand_dispatch_bound:
  "length (dispatches (trace (snd (handleCommand env cfg cm command w))))
     \<le> length (dispatches (trace w)) + 7"
  using execute_dispatch_bound [of 0 env cfg command "selectBackendNode cfg cm command" w]
  by (simp add: handleCommand_def)

text \<open>
  When every backend answers \<open>MOVED\<close>, the command is sent six times; the seventh call
  finds \<open>redirectCount = 6\<close> and returns the error, which the session writes to the
  client as \<open>-ERR <text>\<close>.
\<close>

lemma moved_loop_stops_after_six:
  "(case handleCommand
           (script [Some [], Some [], Some movedReply, Some [], Some [], Some movedReply,
                    Some [], Some [], Some movedReply, Some [], Some [], Some movedReply,
                    Some [], Some [], Some movedReply, Some [], Some [], Some movedReply,
                    Some [], Some [], Some movedReply])
           seedConfig coldCluster [''GET'', ''foo''] freshWorld of
      (r, w) \<Rightarrow> r = Inl ErrTooManyRedirects \<and> length (dispatches (trace w)) = 6)"
  by code_simp

text \<open>
  C3. The claim: one request is dispatched at most six times. The limit is tested at
  the head of \<open>executeCommandWithRedirect\<close> only; \<open>handleAskRedirect\<close> receives
  \<open>redirectCount + 1\<close> and never reads it. Input: five \<open>MOVED\<close> replies, then an \<open>ASK\<close>
  reply to the sixth dispatch, then \<open>+OK\<close> to the handshake. The command is sent a
  seventh time and its reply goes to the client; no error is returned.
\<close>

theorem ask_after_five_moved_is_seventh_dispatch:
  "(case handleCommand
           (script [Some [], Some [], Some movedReply, Some [], Some [], Some movedReply,
                    Some [], Some [], Some movedReply, Some [], Some [], Some movedReply,
                    Some [], Some [], Some movedReply, Some [], Some [], Some askReply,
                    Some [], Some [], Some (''+OK'' @ CRLF), Some [], Some (''$3'' @ CRLF @ ''bar'' @ CRLF),
                    Some []])
           seedConfig coldCluster [''GET'', ''foo''] freshWorld of
      (r, w) \<Rightarrow> r = Inr () \<and> dispatches (trace w) = [0, 1, 2, 3, 4, 5, 6]
                \<and> length (dispatches (trace w)) = 7
                \<and> last (trace w) = EvClientWrite (''$3'' @ CRLF @ ''bar'' @ CRLF) True)"
  by code_simp

section \<open>Errors on a backend socket\<close>

lemma execute_send_error:
  assumes "redirectCount \<le> 5" and "GetConnection env a w = (Inr c, w1)" and "env (tick w1) = None"
  shows "executeCommandWithRedirect env cfg command a redirectCount w
           = (Inl ErrSendBackend,
              ReturnConnection a c (step (EvSendCommand c (formatCommand command) False) w1))"
  using assms
  by (subst executeCommandWithRedirect.simps) (simp add: sendCommandToBackend_def)

lemma execute_read_error:
  assumes "redirectCount \<le> 5" and "GetConnection env a w = (Inr c, w1)"
    and "env (tick w1) \<noteq> None" and "env (Suc (tick w1)) = None"
  shows "executeCommandWithRedirect env cfg command a redirectCount w
           = (Inl ErrReadBackend,
              ReturnConnection a c
                (step (EvReadReply c None) (step (EvSendCommand c (formatCommand command) True) w1)))"
  using assms
  by (subst executeCommandWithRedirect.simps)
     (simp add: sendCommandToBackend_def readBackendResponse_def step_fields)

lemma execute_io_error:
  assumes le: "redirectCount \<le> 5"
    and gc: "GetConnection env a w = (Inr c, w1)"
    and fails: "env (tick w1) = None \<or> env (Suc (tick w1)) = None"
  shows "\<exists>e w'. executeCommandWithRedirect env cfg command a redirectCount w
                  = (Inl e, ReturnConnection a c w')
               \<and> (e = ErrSendBackend \<or> e = ErrReadBackend)
               \<and> pools w' = pools w1 \<and> closed w' = closed w1"
proof (cases "env (tick w1) = None")
  case True
  show ?thesis
    using execute_send_error [OF le gc True, of cfg command]
    by (intro exI [of _ ErrSendBackend]
          exI [of _ "step (EvSendCommand c (formatCommand command) False) w1"])
       (simp add: step_fields)
next
  case False
  with fails have rd: "env (Suc (tick w1)) = None" by simp
  show ?thesis
    using execute_read_error [OF le gc False rd, of cfg command]
    by (intro exI [of _ ErrReadBackend]
          exI [of _ "step (EvReadReply c None) (step (EvSendCommand c (formatCommand command) True) w1)"])
       (simp add: step_fields)
qed

text \<open>
  C4, as stated, fails: the read of the reply fails, and afterwards socket 0 is idle in
  the pool of its address and has not been closed.
\<close>

theorem backend_read_error_repools_socket:
  "(case executeCommandWithRedirect (script [Some [], Some [], None]) seedConfig
           [''GET'', ''foo''] ''10.0.0.1:7000'' 0 freshWorld of
      (r, w) \<Rightarrow> r = Inl ErrReadBackend \<and> closed w = []
                \<and> map_option connections (pools w ''10.0.0.1:7000'') = Some [0]
                \<and> map_option currentSize (pools w ''10.0.0.1:7000'') = Some 1)"
  by code_simp

text \<open>
  C4, as amended. A request is parsed and a socket \<open>c\<close> is taken for its backend; sending
  the command fails, or sending succeeds and reading the reply fails. Then the request
  ends with an error, the session writes \<open>-ERR <text>\<close> to the client and goes on to
  its next round, and the deferred \<open>ReturnConnection\<close> hands \<open>c\<close> back to the pool:
  \<open>c\<close> joins the idle sockets and is not closed when fewer than 10 are idle, and is
  closed, with \<open>currentSize\<close> decremented, only when 10 are idle already.
\<close>

theorem backend_io_error_returns_socket:
  assumes parsed: "ParseCommand r = (Inr command, r1)" and nonempty: "command \<noteq> []"
    and conn: "fst (GetConnection env (selectBackendNode cfg cm command) w) = Inr c"
    and fails: "env (tick (snd (GetConnection env (selectBackendNode cfg cm command) w))) = None
              \<or> env (Suc (tick (snd (GetConnection env (selectBackendNode cfg cm command) w)))) = None"
  shows "\<exists>e w2 np.
      handleCommand env cfg cm command w = (Inl e, w2)
      \<and> (e = ErrSendBackend \<or> e = ErrReadBackend)
      \<and> handleConnectionRound errorText protocolErrorText env cfg cm r w
          = (Continue, r1, sendError env (errorText e) w2)
      \<and> trace (sendError env (errorText e) w2)
          = trace w2 @ [EvClientWrite (FormatError (errorText e)) (env (tick w2) \<noteq> None)]
      \<and> pools (snd (GetConnection env (selectBackendNode cfg cm command) w))
           (selectBackendNode cfg cm command) = Some np
      \<and> (if length (connections np) < 10
         then closed w2 = closed w
              \<and> map_option connections (pools w2 (selectBackendNode cfg cm command))
                  = Some (connections np @ [c])
         else closed w2 = closed w @ [c]
              \<and> map_option currentSize (pools w2 (selectBackendNode cfg cm command))
                  = Some (currentSize np - 1))"
proof -
  let ?a = "selectBackendNode cfg cm command"
  obtain w1 where gc: "GetConnection env ?a w = (Inr c, w1)"
    using conn by (cases "GetConnection env ?a w") simp
  from fails gc have fails': "env (tick w1) = None \<or> env (Suc (tick w1)) = None" by simp
  obtain e w' where ex: "executeCommandWithRedirect env cfg command ?a 0 w = (Inl e, ReturnConnection ?a c w')"
    and e: "e = ErrSendBackend \<or> e = ErrReadBackend"
    and same: "pools w' = pools w1" "closed w' = closed w1"
    using execute_io_error [OF _ gc fails', of 0 cfg command] by auto
  obtain np where np: "pools w1 ?a = Some np"
    using GetConnection_pool [of env ?a w] gc by auto
  have cl: "closed w1 = closed w"
    using GetConnection_closed [of env ?a w] gc by simp
  let ?w2 = "ReturnConnection ?a c w'"
  have hc: "handleCommand env cfg cm command w = (Inl e, ?w2)"
    using nonempty ex by (simp add: handleCommand_def)
  have rnd: "handleConnectionRound errorText protocolErrorText env cfg cm r w
          = (Continue, r1, sendError env (errorText e) ?w2)"
    using parsed nonempty hc by (simp add: handleConnectionRound_def)
  have tr: "trace (sendError env (errorText e) ?w2)
          = trace ?w2 @ [EvClientWrite (FormatError (errorText e)) (env (tick ?w2) \<noteq> None)]"
    by (simp add: sendError_def clientWrite_def step_fields)
  have pool: "if length (connections np) < 10
         then closed ?w2 = closed w
              \<and> map_option connections (pools ?w2 ?a) = Some (connections np @ [c])
         else closed ?w2 = closed w @ [c]
              \<and> map_option currentSize (pools ?w2 ?a) = Some (currentSize np - 1)"
    using ReturnConnection_pooled [of w' ?a np c] np same cl by (simp split: if_splits)
  from hc e rnd tr np pool gc show ?thesis
    by (intro exI [of _ e] exI [of _ ?w2] exI [of _ np]) simp
qed


text \<open>C4, as amended, at a request \<open>GET foo\<close> whose reply cannot be read.\<close>

theorem backend_io_error_returns_socket_witness:
  "ParseCommand (formatCommand [''GET'', ''foo'']) = (Inr [''GET'', ''foo''], [])
   \<and> [''GET'', ''foo''] \<noteq> []
   \<and> fst (GetConnection (script [Some [], Some [], None, Some []])
            (selectBackendNode seedConfig coldCluster [''GET'', ''foo'']) freshWorld) = Inr 0
   \<and> script [Some [], Some [], None, Some []]
        (Suc (tick (snd (GetConnection (script [Some [], Some [], None, Some []])
            (selectBackendNode seedConfig coldCluster [''GET'', ''foo'']) freshWorld)))) = None
   \<and> (\<exists>e w2.
        handleCommand (script [Some [], Some [], None, Some []]) seedConfig coldCluster
            [''GET'', ''foo''] freshWorld = (Inl e, w2)
        \<and> handleConnectionRound (\<lambda>e. ''backend error'') ''protocol error''
            (script [Some [], Some [], None, Some []]) seedConfig coldCluster
            (formatCommand [''GET'', ''foo'']) freshWorld
          = (Continue, [], sendError (script [Some [], Some [], None, Some []]) ''backend error'' w2)
        \<and> closed w2 = []
        \<and> map_option connections (pools w2 ''10.0.0.1:7000'') = Some [0])"
proof -
  let ?env = "script [Some [], Some [], None, Some []]"
  let ?a = "selectBackendNode seedConfig coldCluster [''GET'', ''foo'']"
  have a: "?a = ''10.0.0.1:7000''" by code_simp
  have h1: "ParseCommand (formatCommand [''GET'', ''foo'']) = (Inr [''GET'', ''foo''], [])"
    by code_simp
  have h2: "[''GET'', ''foo''] \<noteq> []" by simp
  have h3: "fst (GetConnection ?env ?a freshWorld) = Inr 0" by code_simp
  have h4: "?env (Suc (tick (snd (GetConnection ?env ?a freshWorld)))) = None" by code_simp
  have np: "map_option connections (pools (snd (GetConnection ?env ?a freshWorld)) ?a) = Some []"
    by code_simp
  have cl: "closed freshWorld = []" by (simp add: freshWorld_def)
  from backend_io_error_returns_socket
         [OF h1 h2 h3 disjI2 [OF h4], of "\<lambda>e. ''backend error''" "''protocol error''"]
  obtain e w2 np where
      "handleCommand ?env seedConfig coldCluster [''GET'', ''foo''] freshWorld = (Inl e, w2)"
      "handleConnectionRound (\<lambda>e. ''backend error'') ''protocol error'' ?env seedConfig coldCluster
         (formatCommand [''GET'', ''foo'']) freshWorld
         = (Continue, [], sendError ?env ''backend error'' w2)"
      "pools (snd (GetConnection ?env ?a freshWorld)) ?a = Some np"
      "if length (connections np) < 10
         then closed w2 = closed freshWorld
              \<and> map_option connections (pools w2 ?a) = Some (connections np @ [0])
         else closed w2 = closed freshWorld @ [0]
              \<and> map_option currentSize (pools w2 ?a) = Some (currentSize np - 1)"
    by blast
  moreover from this np have "connections np = []" by simp
  ultimately have "\<exists>e w2.
        handleCommand ?env seedConfig coldCluster [''GET'', ''foo''] freshWorld = (Inl e, w2)
        \<and> handleConnectionRound (\<lambda>e. ''backend error'') ''protocol error'' ?env seedConfig coldCluster
            (formatCommand [''GET'', ''foo'']) freshWorld
          = (Continue, [], sendError ?env ''backend error'' w2)
        \<and> closed w2 = []
        \<and> map_option connections (pools w2 ''10.0.0.1:7000'') = Some [0]"
    using a cl by auto
  with h1 h2 h3 h4 show ?thesis by blast
qed

section \<open>The ASK handshake\<close>

text \<open>
  C5, as stated, fails: on an \<open>ASK\<close> reply the only bytes written before the command
  is sent again are the inline request \<open>ASKING\r\n\<close>, not \<open>*1\r\n$6\r\nASKING\r\n\<close>.
\<close>

theorem ask_handshake_is_inline:
  "(case handleCommand
           (script [Some [], Some [], Some askReply,
                    Some [], Some [], Some (''+OK'' @ CRLF), Some [], Some (''$1'' @ CRLF @ ''v'' @ CRLF),
                    Some []])
           seedConfig coldCluster [''GET'', ''{x}k''] freshWorld of
      (r, w) \<Rightarrow> r = Inr () \<and> rawWrites (trace w) = [(1, ''ASKING'' @ CRLF)]
                \<and> rawWrites (trace w) \<noteq> [(1, ''*1'' @ CRLF @ ''$6'' @ CRLF @ ''ASKING'' @ CRLF)]
                \<and> dispatches (trace w) = [0, 1])"
  by code_simp

text \<open>
  C5, as amended. Once \<open>handleAskRedirect\<close> holds a socket \<open>c\<close> to the redirect
  target, the first thing it does is write exactly \<open>ASKING\r\n\<close> on \<open>c\<close>, and it writes
  no other raw bytes. If that write succeeds and the line read next begins with \<open>+OK\<close>,
  the read is followed at once by the original command on \<open>c\<close>, sent once. Otherwise
  the command is not sent and the request ends with an error. After any request that
  was parsed the session goes on to its next round.
\<close>

theorem ask_redirect_handshake:
  assumes conn: "fst (GetConnection env redirectAddr w) = Inr c"
    and parsed: "ParseCommand r = (Inr request, r1)"
  shows "(\<exists>rest.
            trace (snd (handleAskRedirect env command redirectAddr redirectCount w))
              = trace (snd (GetConnection env redirectAddr w))
                @ EvWrite c (''ASKING'' @ CRLF)
                    (env (tick (snd (GetConnection env redirectAddr w))) \<noteq> None) # rest
          \<and> rawWrites rest = []
          \<and> (if env (tick (snd (GetConnection env redirectAddr w))) \<noteq> None
                \<and> (\<exists>l. env (Suc (tick (snd (GetConnection env redirectAddr w)))) = Some l
                        \<and> HasPrefix l ''+OK'')
             then \<exists>rest'. rest = EvRead c (env (Suc (tick (snd (GetConnection env redirectAddr w)))))
                                 # EvSendCommand c (formatCommand command)
                                     (env (Suc (Suc (tick (snd (GetConnection env redirectAddr w))))) \<noteq> None)
                                 # rest'
                            \<and> dispatches rest' = []
             else dispatches rest = []
                  \<and> (\<exists>e. fst (handleAskRedirect env command redirectAddr redirectCount w) = Inl e)))
         \<and> fst (handleConnectionRound errorText protocolErrorText env' cfg cm r w') = Continue"
proof
  obtain w1 where gc: "GetConnection env redirectAddr w = (Inr c, w1)"
    using conn by (cases "GetConnection env redirectAddr w") simp
  obtain res w2 where ask: "askOnConnection env command c w1 = (res, w2)"
    by (cases "askOnConnection env command c w1")
  have har: "handleAskRedirect env command redirectAddr redirectCount w
               = (res, ReturnConnection redirectAddr c w2)"
    by (simp add: handleAskRedirect_def gc ask)
  let ?hs = "env (tick w1) \<noteq> None \<and> (\<exists>l. env (Suc (tick w1)) = Some l \<and> HasPrefix l ''+OK'')"
  obtain rest where tr: "trace w2 = trace w1 @ EvWrite c (''ASKING'' @ CRLF) (env (tick w1) \<noteq> None) # rest"
    and rw: "rawWrites rest = []"
    and ok: "?hs \<Longrightarrow> \<exists>rest'. rest = EvRead c (env (Suc (tick w1)))
                               # EvSendCommand c (formatCommand command) (env (Suc (Suc (tick w1))) \<noteq> None)
                               # rest' \<and> dispatches rest' = []"
    and bad: "\<not> ?hs \<Longrightarrow> dispatches rest = [] \<and> (\<exists>e. res = Inl e)"
    using askOnConnection_trace [of env command c w1] ask by (auto split: if_splits)
  consider (kept) "trace (ReturnConnection redirectAddr c w2) = trace w2"
    | (shut) "trace (ReturnConnection redirectAddr c w2) = trace w2 @ [EvClose c]"
    using ReturnConnection_trace by blast
  then have "\<exists>rest.
            trace (ReturnConnection redirectAddr c w2)
              = trace w1 @ EvWrite c (''ASKING'' @ CRLF) (env (tick w1) \<noteq> None) # rest
          \<and> rawWrites rest = []
          \<and> (if ?hs
             then \<exists>rest'. rest = EvRead c (env (Suc (tick w1)))
                                 # EvSendCommand c (formatCommand command) (env (Suc (Suc (tick w1))) \<noteq> None)
                                 # rest'
                            \<and> dispatches rest' = []
             else dispatches rest = [] \<and> (\<exists>e. res = Inl e))"
  proof cases
    case kept
    show ?thesis
      using kept tr rw ok bad by (intro exI [of _ rest]) (simp split: if_splits)
  next
    case shut
    show ?thesis
    proof (cases ?hs)
      case True
      then obtain rest' where r': "rest = EvRead c (env (Suc (tick w1)))
                               # EvSendCommand c (formatCommand command) (env (Suc (Suc (tick w1))) \<noteq> None)
                               # rest'" "dispatches rest' = []"
        using ok by blast
      show ?thesis
        using shut tr rw r' True
        by (intro exI [of _ "rest @ [EvClose c]"]) (simp add: rawWrites_append dispatches_append)
    next
      case False
      show ?thesis
        using shut tr rw bad [OF False] False
        by (intro exI [of _ "rest @ [EvClose c]"]) (auto simp: rawWrites_append dispatches_append)
    qed
  qed
  then show "\<exists>rest.
            trace (snd (handleAskRedirect env command redirectAddr redirectCount w))
              = trace (snd (GetConnection env redirectAddr w))
                @ EvWrite c (''ASKING'' @ CRLF)
                    (env (tick (snd (GetConnection env redirectAddr w))) \<noteq> None) # rest
          \<and> rawWrites rest = []
          \<and> (if env (tick (snd (GetConnection env redirectAddr w))) \<noteq> None
                \<and> (\<exists>l. env (Suc (tick (snd (GetConnection env redirectAddr w)))) = Some l
                        \<and> HasPrefix l ''+OK'')
             then \<exists>rest'. rest = EvRead c (env (Suc (tick (snd (GetConnection env redirectAddr w)))))
                                 # EvSendCommand c (formatCommand command)
                                     (env (Suc (Suc (tick (snd (GetConnection env redirectAddr w))))) \<noteq> None)
                                 # rest'
                            \<and> dispatches rest' = []
             else dispatches rest = []
                  \<and> (\<exists>e. fst (handleAskRedirect env command redirectAddr redirectCount w) = Inl e))"
    by (simp only: har gc snd_conv fst_conv)
next
  show "fst (handleConnectionRound errorText protocolErrorText env' cfg cm r w') = Continue"
    using parsed by (rule round_continues)
qed

text \<open>C5, as amended, at a handshake answered with \<open>+OK\<close>.\<close>

theorem ask_redirect_handshake_witness:
  "fst (GetConnection (script [Some [], Some [], Some (''+OK'' @ CRLF), Some [], Some (''$1'' @ CRLF @ ''v'' @ CRLF), Some []])
          ''10.0.0.3:7000'' freshWorld) = Inr 0
   \<and> ParseCommand (formatCommand [''GET'', ''{x}k'']) = (Inr [''GET'', ''{x}k''], [])
   \<and> take 4 (trace (snd (handleAskRedirect
          (script [Some [], Some [], Some (''+OK'' @ CRLF), Some [], Some (''$1'' @ CRLF @ ''v'' @ CRLF), Some []])
          [''GET'', ''{x}k''] ''10.0.0.3:7000'' 1 freshWorld)))
       = [EvDial ''10.0.0.3:7000'' True, EvWrite 0 (''ASKING'' @ CRLF) True,
          EvRead 0 (Some (''+OK'' @ CRLF)),
          EvSendCommand 0 (formatCommand [''GET'', ''{x}k'']) True]
   \<and> fst (handleConnectionRound (\<lambda>e. ''backend error'') ''protocol error''
          (script [Some [], Some [], Some askReply]) seedConfig coldCluster
          (formatCommand [''GET'', ''{x}k'']) freshWorld) = Continue"
proof -
  let ?env = "script [Some [], Some [], Some (''+OK'' @ CRLF), Some [], Some (''$1'' @ CRLF @ ''v'' @ CRLF), Some []]"
  let ?w1 = "snd (GetConnection ?env ''10.0.0.3:7000'' freshWorld)"
  have h1: "fst (GetConnection ?env ''10.0.0.3:7000'' freshWorld) = Inr 0" by code_simp
  have h2: "ParseCommand (formatCommand [''GET'', ''{x}k'']) = (Inr [''GET'', ''{x}k''], [])"
    by code_simp
  have t: "trace ?w1 = [EvDial ''10.0.0.3:7000'' True]" by code_simp
  have e1: "?env (tick ?w1) \<noteq> None" by code_simp
  have e2: "?env (Suc (tick ?w1)) = Some (''+OK'' @ CRLF)" by code_simp
  have e3: "?env (Suc (Suc (tick ?w1))) \<noteq> None" by code_simp
  have p: "HasPrefix (''+OK'' @ CRLF) ''+OK''" by code_simp
  have hs: "?env (tick ?w1) \<noteq> None \<and> (\<exists>l. ?env (Suc (tick ?w1)) = Some l \<and> HasPrefix l ''+OK'')"
    using e1 e2 p by blast
  from ask_redirect_handshake [OF h1 h2, of "[''GET'', ''{x}k'']" 1 "\<lambda>e. ''backend error''"
         "''protocol error''" "script [Some [], Some [], Some askReply]" seedConfig coldCluster freshWorld]
  obtain rest where
      tr: "trace (snd (handleAskRedirect ?env [''GET'', ''{x}k''] ''10.0.0.3:7000'' 1 freshWorld))
             = trace ?w1 @ EvWrite 0 (''ASKING'' @ CRLF) (?env (tick ?w1) \<noteq> None) # rest"
      and br: "if ?env (tick ?w1) \<noteq> None \<and> (\<exists>l. ?env (Suc (tick ?w1)) = Some l \<and> HasPrefix l ''+OK'')
             then \<exists>rest'. rest = EvRead 0 (?env (Suc (tick ?w1)))
                                 # EvSendCommand 0 (formatCommand [''GET'', ''{x}k''])
                                     (?env (Suc (Suc (tick ?w1))) \<noteq> None)
                                 # rest'
                            \<and> dispatches rest' = []
             else dispatches rest = []
                  \<and> (\<exists>e. fst (handleAskRedirect ?env [''GET'', ''{x}k''] ''10.0.0.3:7000'' 1 freshWorld) = Inl e)"
      and cont: "fst (handleConnectionRound (\<lambda>e. ''backend error'') ''protocol error''
          (script [Some [], Some [], Some askReply]) seedConfig coldCluster
          (formatCommand [''GET'', ''{x}k'']) freshWorld) = Continue"
    by blast
  from br [unfolded if_P [OF hs]] obtain rest' where
      "rest = EvRead 0 (?env (Suc (tick ?w1)))
                # EvSendCommand 0 (formatCommand [''GET'', ''{x}k'']) (?env (Suc (Suc (tick ?w1))) \<noteq> None)
                # rest'"
    by blast
  with tr t e1 e2 e3 have
    "take 4 (trace (snd (handleAskRedirect ?env [''GET'', ''{x}k''] ''10.0.0.3:7000'' 1 freshWorld)))
       = [EvDial ''10.0.0.3:7000'' True, EvWrite 0 (''ASKING'' @ CRLF) True,
          EvRead 0 (Some (''+OK'' @ CRLF)),
          EvSendCommand 0 (formatCommand [''GET'', ''{x}k'']) True]"
    by simp
  with h1 h2 cont show ?thesis by blast
qed

end
